theory Spec2Isabelle
  imports Main "HOL-Library.Sublist"
begin

section \<open>JavaScript strings\<close>

text \<open>
  A JavaScript string is a sequence of UTF-16 code units. A code unit is modelled by its
  numeric value, a string by the list of its code units, so that \<open>length\<close> is the
  \<^verbatim>\<open>.length\<close> of the source. ASCII literals of the source are written with \<open>str\<close>.
\<close>

type_synonym jschar = nat
type_synonym jsstring = "jschar list"

definition chr :: "char \<Rightarrow> jschar" where
  "chr c = of_char c"

definition str :: "string \<Rightarrow> jsstring" where
  "str s = map chr s"

definition inRange :: "char \<Rightarrow> char \<Rightarrow> jschar \<Rightarrow> bool" where
  "inRange lo hi c = (chr lo \<le> c \<and> c \<le> chr hi)"

text \<open>
  The class \<^verbatim>\<open>\s\<close> of a regular expression and the characters removed by
  \<^verbatim>\<open>String.prototype.trim\<close> are the same set: WhiteSpace and LineTerminator of
  ECMAScript (TAB, LF, VT, FF, CR, SP, NBSP, U+1680, U+2000..U+200A, U+2028, U+2029,
  U+202F, U+205F, U+3000, U+FEFF).
\<close>

definition isWhiteSpace :: "jschar \<Rightarrow> bool" where
  "isWhiteSpace c =
     ((9 \<le> c \<and> c \<le> 13) \<or> c = 32 \<or> c = 160 \<or> c = 5760 \<or> (8192 \<le> c \<and> c \<le> 8202)
      \<or> c = 8232 \<or> c = 8233 \<or> c = 8239 \<or> c = 8287 \<or> c = 12288 \<or> c = 65279)"

definition trim :: "jsstring \<Rightarrow> jsstring" where
  "trim s = rev (dropWhile isWhiteSpace (rev (dropWhile isWhiteSpace s)))"

definition isAscii :: "jschar \<Rightarrow> bool" where
  "isAscii c = (c < 128)"

definition asciiLower :: "jschar \<Rightarrow> jschar" where
  "asciiLower c = (if inRange CHR ''A'' CHR ''Z'' c then c + 32 else c)"

text \<open>
  \<^verbatim>\<open>String.prototype.toLowerCase\<close>. On a string of ASCII code units it maps
  \<^verbatim>\<open>A-Z\<close> to \<^verbatim>\<open>a-z\<close> and keeps everything else. On a string with a code unit
  beyond ASCII the result is read from the Unicode case tables of the JavaScript engine,
  which are not part of the program: they are the parameter \<open>unicodeLower\<close>.
\<close>

definition toLowerCase :: "(jsstring \<Rightarrow> jsstring) \<Rightarrow> jsstring \<Rightarrow> jsstring" where
  "toLowerCase unicodeLower s =
     (if list_all isAscii s then map asciiLower s else unicodeLower s)"

text \<open>
  \<^verbatim>\<open>s.replace(/[C]+/g, rep)\<close> for a character class \<open>C\<close>: the scan goes from left to
  right, the greedy \<^verbatim>\<open>+\<close> takes a maximal run of code units of the class, the run is
  replaced by \<open>rep\<close> and the scan goes on behind it.
\<close>

function replaceRuns :: "(jschar \<Rightarrow> bool) \<Rightarrow> jsstring \<Rightarrow> jsstring \<Rightarrow> jsstring" where
  "replaceRuns C rep [] = []"
| "replaceRuns C rep (c # cs) =
     (if C c then rep @ replaceRuns C rep (dropWhile C cs) else c # replaceRuns C rep cs)"
  by pat_completeness auto
termination
  by (relation "measure (\<lambda>(C, rep, s). length s)")
     (auto simp: less_Suc_eq_le length_dropWhile_le)

text \<open>
  \<^verbatim>\<open>s.replace(/^[C]/, rep)\<close>, without the global flag: only a first code unit of the
  class is replaced.
\<close>

fun replaceLeading :: "(jschar \<Rightarrow> bool) \<Rightarrow> jsstring \<Rightarrow> jsstring \<Rightarrow> jsstring" where
  "replaceLeading C rep [] = []"
| "replaceLeading C rep (c # cs) = (if C c then rep @ cs else c # cs)"

text \<open>
  \<^verbatim>\<open>s.split(sep)\<close> for a separator of one code unit, and \<^verbatim>\<open>a[i]\<close> on the array it
  returns: an index out of range reads \<^verbatim>\<open>undefined\<close>, which is \<open>None\<close>.
\<close>

fun split :: "jschar \<Rightarrow> jsstring \<Rightarrow> jsstring list" where
  "split sep [] = [[]]"
| "split sep (c # cs) =
     (if c = sep then [] # split sep cs
      else (case split sep cs of [] \<Rightarrow> [[c]] | w # ws \<Rightarrow> (c # w) # ws))"

fun index :: "'a list \<Rightarrow> nat \<Rightarrow> 'a option" where
  "index [] i = None"
| "index (x # xs) 0 = Some x"
| "index (x # xs) (Suc i) = index xs i"

definition includesChar :: "jsstring \<Rightarrow> jschar \<Rightarrow> bool" where
  "includesChar s c = (c \<in> set s)"

section \<open>Regular expressions\<close>

text \<open>
  The patterns of the program use character classes, sequence, the optional group
  \<^verbatim>\<open>(?:r)?\<close> and the star. A class is the list of its items, written as in the source:
  \<^verbatim>\<open>[a-z0-9-~]\<close> is \<open>[Rng a z, Rng 0 9, Ch -, Ch ~]\<close>.
\<close>

datatype citem = Ch char | Rng char char

datatype regex = Never | Empty | Class "citem list" | Seq regex regex | Alt regex regex | Star regex

abbreviation Lit :: "char \<Rightarrow> regex" where
  "Lit c \<equiv> Class [Ch c]"

abbreviation Opt :: "regex \<Rightarrow> regex" where
  "Opt r \<equiv> Alt r Empty"

fun inItem :: "citem \<Rightarrow> jschar \<Rightarrow> bool" where
  "inItem (Ch a) c = (c = chr a)"
| "inItem (Rng lo hi) c = inRange lo hi c"

definition inClass :: "citem list \<Rightarrow> jschar \<Rightarrow> bool" where
  "inClass items c = list_ex (\<lambda>i. inItem i c) items"

text \<open>
  \<^verbatim>\<open>/^r$/.test(s)\<close> holds when the whole of \<open>s\<close> is a word of \<open>r\<close> (without the
  \<^verbatim>\<open>m\<close> flag \<^verbatim>\<open>$\<close> is the end of the input only). It is decided by derivatives:
  \<open>deriv c r\<close> matches what \<open>r\<close> matches behind a first code unit \<open>c\<close>.
\<close>

fun nullable :: "regex \<Rightarrow> bool" where
  "nullable Never = False"
| "nullable Empty = True"
| "nullable (Class items) = False"
| "nullable (Seq r s) = (nullable r \<and> nullable s)"
| "nullable (Alt r s) = (nullable r \<or> nullable s)"
| "nullable (Star r) = True"

fun deriv :: "jschar \<Rightarrow> regex \<Rightarrow> regex" where
  "deriv c Never = Never"
| "deriv c Empty = Never"
| "deriv c (Class items) = (if inClass items c then Empty else Never)"
| "deriv c (Seq r s) =
     (if nullable r then Alt (Seq (deriv c r) s) (deriv c s) else Seq (deriv c r) s)"
| "deriv c (Alt r s) = Alt (deriv c r) (deriv c s)"
| "deriv c (Star r) = Seq (deriv c r) (Star r)"

fun matches :: "regex \<Rightarrow> jsstring \<Rightarrow> bool" where
  "matches r [] = nullable r"
| "matches r (c # cs) = matches (deriv c r) cs"

text \<open>The words of a pattern, against which the matcher is proved right.\<close>

definition conc :: "jsstring set \<Rightarrow> jsstring set \<Rightarrow> jsstring set" where
  "conc A B = {u @ v | u v. u \<in> A \<and> v \<in> B}"

inductive_set star :: "jsstring set \<Rightarrow> jsstring set" for A :: "jsstring set" where
  star_Nil: "[] \<in> star A"
| star_Step: "u \<in> A \<Longrightarrow> v \<in> star A \<Longrightarrow> u @ v \<in> star A"

fun lang :: "regex \<Rightarrow> jsstring set" where
  "lang Never = {}"
| "lang Empty = {[]}"
| "lang (Class items) = {[c] | c. inClass items c}"
| "lang (Seq r s) = conc (lang r) (lang s)"
| "lang (Alt r s) = lang r \<union> lang s"
| "lang (Star r) = star (lang r)"

section \<open>The name functions of index.mjs\<close>

text \<open>
  The pattern of \<^verbatim>\<open>isValidPackageName\<close>,
  \<^verbatim>\<open>/^(?:@[a-z0-9-*~][a-z0-9-*._~]*\/)?[a-z0-9-~][a-z0-9-._~]*$/\<close>. In each class the
  \<^verbatim>\<open>-\<close> behind \<^verbatim>\<open>0-9\<close> is a literal hyphen.
\<close>

definition packageNamePattern :: regex where
  "packageNamePattern =
     Seq (Opt (Seq (Lit CHR ''@'')
               (Seq (Class [Rng CHR ''a'' CHR ''z'', Rng CHR ''0'' CHR ''9'',
                            Ch CHR ''-'', Ch CHR ''*'', Ch CHR ''~''])
               (Seq (Star (Class [Rng CHR ''a'' CHR ''z'', Rng CHR ''0'' CHR ''9'',
                                  Ch CHR ''-'', Ch CHR ''*'', Ch CHR ''.'', Ch CHR ''_'',
                                  Ch CHR ''~'']))
                    (Lit CHR ''/'')))))
         (Seq (Class [Rng CHR ''a'' CHR ''z'', Rng CHR ''0'' CHR ''9'',
                      Ch CHR ''-'', Ch CHR ''~''])
              (Star (Class [Rng CHR ''a'' CHR ''z'', Rng CHR ''0'' CHR ''9'',
                            Ch CHR ''-'', Ch CHR ''.'', Ch CHR ''_'', Ch CHR ''~''])))"

definition isValidPackageName :: "jsstring \<Rightarrow> bool" where
  "isValidPackageName projectName = matches packageNamePattern projectName"

text \<open>
  \<^verbatim>\<open>toValidPackageName\<close>: trim, lower case, \<^verbatim>\<open>/\s+/g\<close> to a hyphen, \<^verbatim>\<open>/^[._]/\<close>
  removed, \<^verbatim>\<open>/[^a-z0-9-~]+/g\<close> to a hyphen.
\<close>

definition toValidPackageName :: "(jsstring \<Rightarrow> jsstring) \<Rightarrow> jsstring \<Rightarrow> jsstring" where
  "toValidPackageName unicodeLower projectName =
     replaceRuns
       (\<lambda>c. \<not> inClass [Rng CHR ''a'' CHR ''z'', Rng CHR ''0'' CHR ''9'',
                         Ch CHR ''-'', Ch CHR ''~''] c)
       (str ''-'')
       (replaceLeading (inClass [Ch CHR ''.'', Ch CHR ''_'']) []
         (replaceRuns isWhiteSpace (str ''-'')
           (toLowerCase unicodeLower (trim projectName))))"

text \<open>
  \<^verbatim>\<open>packageNameToDirName\<close>. The result is \<open>None\<close> where the source would read
  \<^verbatim>\<open>undefined\<close> from the array.
\<close>

definition packageNameToDirName :: "jsstring \<Rightarrow> jsstring option" where
  "packageNameToDirName packageName =
     (if includesChar packageName (chr CHR ''/'')
      then index (split (chr CHR ''/'') packageName) 1
      else Some packageName)"

section \<open>Paths, files and JSON values\<close>

text \<open>
  An absolute path is the list of its segments. \<^verbatim>\<open>path.resolve\<close> and \<^verbatim>\<open>path.join\<close>
  (POSIX) split their string argument at \<^verbatim>\<open>/\<close>, skip empty segments and \<^verbatim>\<open>.\<close>, and
  go up one directory at \<^verbatim>\<open>..\<close>; an argument of \<^verbatim>\<open>resolve\<close> that begins with
  \<^verbatim>\<open>/\<close> starts again from the root.
\<close>

type_synonym path = "jsstring list"

fun normalize :: "path \<Rightarrow> jsstring list \<Rightarrow> path" where
  "normalize acc [] = acc"
| "normalize acc (s # ss) =
     (if s = [] \<or> s = str ''.'' then normalize acc ss
      else if s = str ''..'' then normalize (butlast acc) ss
      else normalize (acc @ [s]) ss)"

definition join :: "path \<Rightarrow> jsstring \<Rightarrow> path" where
  "join dir s = normalize dir (split (chr CHR ''/'') s)"

definition resolve :: "path \<Rightarrow> jsstring \<Rightarrow> path" where
  "resolve dir s =
     (case s of
        [] \<Rightarrow> dir
      | c # cs \<Rightarrow> normalize (if c = chr CHR ''/'' then [] else dir) (split (chr CHR ''/'') s))"

text \<open>
  The file system is the list of its entries. A path exists when an entry lies at it or
  below it.
\<close>

datatype node = File jsstring | Dir

type_synonym fs = "(path \<times> node) list"

definition existsSync :: "fs \<Rightarrow> path \<Rightarrow> bool" where
  "existsSync files p = list_ex (\<lambda>e. prefix p (fst e)) files"

datatype error =
    PromptError | CopyError | ReadError | ParseError | TypeError | WriteError
  | InstallError "int option" | RemoveError

text \<open>
  A JSON value as \<^verbatim>\<open>JSON.parse\<close> builds it; an object is the list of its properties
  in their order. The type \<open>'n\<close> is the type of numbers, which the program never looks
  into.
\<close>

datatype 'n json =
    JNull | JBool bool | JNumber 'n | JString jsstring
  | JArray "'n json list" | JObject "(jsstring \<times> 'n json) list"

text \<open>
  \<^verbatim>\<open>obj[k] = v\<close> on an object: an own property keeps its place and takes the value, a new
  one goes to the end (\<^verbatim>\<open>name\<close> is not an integer key).
\<close>

fun setProperty :: "jsstring \<Rightarrow> 'v \<Rightarrow> (jsstring \<times> 'v) list \<Rightarrow> (jsstring \<times> 'v) list" where
  "setProperty k v [] = [(k, v)]"
| "setProperty k v ((k', v') # props) =
     (if k' = k then (k, v) # props else (k', v') # setProperty k v props)"

text \<open>
  \<^verbatim>\<open>packageJson.name = projectName\<close> in module code, which is strict: on \<^verbatim>\<open>null\<close> and
  on a primitive value the assignment throws a TypeError; on an array it sets a property
  that \<^verbatim>\<open>JSON.stringify\<close> does not write.
\<close>

fun assignName :: "'n json \<Rightarrow> jsstring \<Rightarrow> error + 'n json" where
  "assignName (JObject props) projectName =
     Inr (JObject (setProperty (str ''name'') (JString projectName) props))"
| "assignName (JArray xs) projectName = Inr (JArray xs)"
| "assignName v projectName = Inl TypeError"

section \<open>The environment\<close>

text \<open>
  What the program takes from outside: the command line, the working directory, its own
  directory, the case tables of the engine, the prompt session of enquirer, the copy of
  fs-extra (which may fail and leave a part of the tree), the parser and the printer of
  jsonfile, and the \<^verbatim>\<open>npm install\<close> child process with its exit code (\<open>None\<close> when a
  signal ended it) and what it left on disk. Writing a file and removing a tree can be
  refused by the system: \<open>writeFailure\<close> is \<open>None\<close> when the write goes through and
  \<open>Some left\<close> when it is rejected with \<open>left\<close> as the content the file is left with;
  \<open>removeFailure\<close> is \<open>None\<close> when the removal goes through and \<open>Some left\<close> when
  it is rejected with \<open>left\<close> as the file system it leaves.
\<close>

record options =
  packageName :: jsstring
  installDeps :: bool

record 'n env =
  argv2 :: "jsstring option"
  cwd :: path
  dirname :: path
  unicodeLower :: "jsstring \<Rightarrow> jsstring"
  prompt :: "jsstring \<Rightarrow> (jsstring \<Rightarrow> bool) \<Rightarrow> error + options"
  copy :: "path \<Rightarrow> path \<Rightarrow> fs \<Rightarrow> error option \<times> fs"
  jsonParse :: "jsstring \<Rightarrow> 'n json option"
  jsonStringify :: "'n json \<Rightarrow> nat \<Rightarrow> jsstring"
  npmInstall :: "path \<Rightarrow> fs \<Rightarrow> int option \<times> fs"
  writeFailure :: "path \<Rightarrow> jsstring \<Rightarrow> fs \<Rightarrow> jsstring option"
  removeFailure :: "path \<Rightarrow> fs \<Rightarrow> fs option"

text \<open>
  \<^verbatim>\<open>remove\<close> of fs-extra deletes the entry of a path and every entry below it, or is
  rejected. A write replaces the content of the file, or is rejected; no other entry
  changes.
\<close>

definition remove :: "'n env \<Rightarrow> path \<Rightarrow> fs \<Rightarrow> error option \<times> fs" where
  "remove E p files =
     (case removeFailure E p files of
        Some left \<Rightarrow> (Some RemoveError, left)
      | None \<Rightarrow> (None, filter (\<lambda>e. \<not> prefix p (fst e)) files))"

definition writeFile :: "'n env \<Rightarrow> path \<Rightarrow> jsstring \<Rightarrow> fs \<Rightarrow> error option \<times> fs" where
  "writeFile E p content files =
     (case writeFailure E p content files of
        Some left \<Rightarrow> (Some WriteError, (p, File left) # filter (\<lambda>e. fst e \<noteq> p) files)
      | None \<Rightarrow> (None, (p, File content) # filter (\<lambda>e. fst e \<noteq> p) files))"

definition readJSON :: "'n env \<Rightarrow> fs \<Rightarrow> path \<Rightarrow> error + 'n json" where
  "readJSON E files p =
     (case map_of files p of
        Some (File content) \<Rightarrow>
          (case jsonParse E content of Some v \<Rightarrow> Inr v | None \<Rightarrow> Inl ParseError)
      | _ \<Rightarrow> Inl ReadError)"

definition writeJSON ::
  "'n env \<Rightarrow> path \<Rightarrow> 'n json \<Rightarrow> nat \<Rightarrow> fs \<Rightarrow> error option \<times> fs" where
  "writeJSON E p v spaces files = writeFile E p (jsonStringify E v spaces) files"

section \<open>The steps of index.mjs\<close>

text \<open>
  A step takes the file system and returns the error it threw, if any, with the file
  system it left.
\<close>

definition askForOptions :: "'n env \<Rightarrow> jsstring \<Rightarrow> error + options" where
  "askForOptions E targetDir =
     prompt E (toValidPackageName (unicodeLower E) targetDir) isValidPackageName"

definition copyTemplate :: "'n env \<Rightarrow> path \<Rightarrow> path \<Rightarrow> fs \<Rightarrow> error option \<times> fs" where
  "copyTemplate E src dest files = copy E src dest files"

definition updatePackageJson ::
  "'n env \<Rightarrow> path \<Rightarrow> jsstring \<Rightarrow> fs \<Rightarrow> error option \<times> fs" where
  "updatePackageJson E destDir projectName files =
     (let packageJsonPath = join destDir (str ''package.json'') in
      case readJSON E files packageJsonPath of
        Inl e \<Rightarrow> (Some e, files)
      | Inr packageJson \<Rightarrow>
          (case assignName packageJson projectName of
             Inl e \<Rightarrow> (Some e, files)
           | Inr packageJson' \<Rightarrow> writeJSON E packageJsonPath packageJson' 2 files))"

definition installDependencies :: "'n env \<Rightarrow> path \<Rightarrow> fs \<Rightarrow> error option \<times> fs" where
  "installDependencies E destDir files =
     (case npmInstall E destDir files of
        (code, files') \<Rightarrow>
          if code = Some 0 then (None, files') else (Some (InstallError code), files'))"

text \<open>
  A run ends with an exit code, the steps it went through and the file system it
  leaves; what it prints is left out. \<^verbatim>\<open>process.exit\<close> ends the process where it
  stands, so the exits inside the \<^verbatim>\<open>try\<close> block do not reach the \<^verbatim>\<open>catch\<close> block.
  The promise of \<^verbatim>\<open>main\<close> is either rejected, with the error, the steps and the file
  system of that moment (\<open>Inl\<close>), or the process has ended (\<open>Inr\<close>; code 0 stands
  for the return at the end of \<^verbatim>\<open>main\<close>).
\<close>

datatype step = CopyStep | PatchStep | InstallStep | CleanupStep

record outcome =
  exitCode :: nat
  steps :: "step list"
  disk :: fs

type_synonym rejection = "error \<times> step list \<times> fs"

text \<open>
  The \<^verbatim>\<open>catch\<close> block: \<open>destDir\<close> is \<open>None\<close> while the variable is still
  \<^verbatim>\<open>null\<close>; a resolved path is never the empty string, so it is truthy. A rejected
  \<^verbatim>\<open>remove\<close> is not caught there: it leaves the block before its
  \<^verbatim>\<open>process.exit(1)\<close> and rejects the promise of \<^verbatim>\<open>main\<close>.
\<close>

definition catchBlock ::
  "'n env \<Rightarrow> path option \<Rightarrow> step list \<Rightarrow> fs \<Rightarrow> rejection + outcome" where
  "catchBlock E destDir done files =
     (case destDir of
        None \<Rightarrow> Inr \<lparr>exitCode = 1, steps = done, disk = files\<rparr>
      | Some d \<Rightarrow>
          if existsSync files d
          then
            (case remove E d files of
               (Some e, files') \<Rightarrow> Inl (e, done @ [CleanupStep], files')
             | (None, files') \<Rightarrow>
                 Inr \<lparr>exitCode = 1, steps = done @ [CleanupStep], disk = files'\<rparr>)
          else Inr \<lparr>exitCode = 1, steps = done, disk = files\<rparr>)"

definition main :: "'n env \<Rightarrow> fs \<Rightarrow> rejection + outcome" where
  "main E files =
     (case argv2 E of
        None \<Rightarrow> Inr \<lparr>exitCode = 1, steps = [], disk = files\<rparr>
      | Some initialTargetDir \<Rightarrow>
          if initialTargetDir = [] then Inr \<lparr>exitCode = 1, steps = [], disk = files\<rparr>
          else
            (case askForOptions E initialTargetDir of
               Inl e \<Rightarrow> catchBlock E None [] files
             | Inr opts \<Rightarrow>
                 (case packageNameToDirName (packageName opts) of
                    None \<Rightarrow> catchBlock E None [] files
                  | Some finalDirName \<Rightarrow>
                      (let destDir = resolve (cwd E) finalDirName in
                       if existsSync files destDir
                       then Inr \<lparr>exitCode = 1, steps = [], disk = files\<rparr>
                       else
                         (case copyTemplate E (join (dirname E) (str ''template'')) destDir files of
                            (Some e, files1) \<Rightarrow> catchBlock E (Some destDir) [CopyStep] files1
                          | (None, files1) \<Rightarrow>
                              (case updatePackageJson E destDir (packageName opts) files1 of
                                 (Some e, files2) \<Rightarrow>
                                   catchBlock E (Some destDir) [CopyStep, PatchStep] files2
                               | (None, files2) \<Rightarrow>
                                   if installDeps opts
                                   then
                                     (case installDependencies E destDir files2 of
                                        (Some e, files3) \<Rightarrow>
                                          catchBlock E (Some destDir)
                                            [CopyStep, PatchStep, InstallStep] files3
                                      | (None, files3) \<Rightarrow>
                                          Inr \<lparr>exitCode = 0,
                                               steps = [CopyStep, PatchStep, InstallStep],
                                               disk = files3\<rparr>)
                                   else
                                     Inr \<lparr>exitCode = 0, steps = [CopyStep, PatchStep],
                                          disk = files2\<rparr>))))))"

text \<open>
  The statement at the end of the file, \<^verbatim>\<open>main().catch(...)\<close>: a rejected promise is
  printed and the process exits with 1.
\<close>

definition runMain :: "'n env \<Rightarrow> fs \<Rightarrow> outcome" where
  "runMain E files =
     (case main E files of
        Inl (e, done, files') \<Rightarrow> \<lparr>exitCode = 1, steps = done, disk = files'\<rparr>
      | Inr out \<Rightarrow> out)"

section \<open>The statements of the specification\<close>

text \<open>
  The package-name grammar in the words of the specification: an optional
  \<^verbatim>\<open>@scope/\<close> prefix, then a name segment of lowercase alphanumerics, \<^verbatim>\<open>-\<close>,
  \<^verbatim>\<open>.\<close> and \<^verbatim>\<open>~\<close> that begins with neither \<^verbatim>\<open>.\<close> nor \<^verbatim>\<open>_\<close>. The specification
  does not say what a scope is made of; \<open>scopeSegment\<close> is what the pattern of the
  program allows there.
\<close>

definition isLowerAlnum :: "jschar \<Rightarrow> bool" where
  "isLowerAlnum c = (inRange CHR ''a'' CHR ''z'' c \<or> inRange CHR ''0'' CHR ''9'' c)"

definition scopeChar :: "jschar \<Rightarrow> bool" where
  "scopeChar c =
     (isLowerAlnum c \<or> c = chr CHR ''-'' \<or> c = chr CHR ''*'' \<or> c = chr CHR ''.''
      \<or> c = chr CHR ''_'' \<or> c = chr CHR ''~'')"

definition scopeSegment :: "jsstring \<Rightarrow> bool" where
  "scopeSegment sc =
     (case sc of
        [] \<Rightarrow> False
      | c # cs \<Rightarrow> c \<noteq> chr CHR ''.'' \<and> c \<noteq> chr CHR ''_'' \<and> list_all scopeChar (c # cs))"

definition specNameChar :: "jschar \<Rightarrow> bool" where
  "specNameChar c =
     (isLowerAlnum c \<or> c = chr CHR ''-'' \<or> c = chr CHR ''.'' \<or> c = chr CHR ''~'')"

definition specNameSegment :: "jsstring \<Rightarrow> bool" where
  "specNameSegment n =
     (case n of
        [] \<Rightarrow> False
      | c # cs \<Rightarrow> c \<noteq> chr CHR ''.'' \<and> c \<noteq> chr CHR ''_'' \<and> list_all specNameChar (c # cs))"

definition specPackageName :: "jsstring \<Rightarrow> bool" where
  "specPackageName name =
     (specNameSegment name
      \<or> (\<exists>sc n. name = chr CHR ''@'' # sc @ chr CHR ''/'' # n
            \<and> scopeSegment sc \<and> specNameSegment n))"

text \<open>
  The grammar the pattern of the program decides: the name segment may also hold
  \<^verbatim>\<open>_\<close> behind its first character.
\<close>

definition nameChar :: "jschar \<Rightarrow> bool" where
  "nameChar c =
     (isLowerAlnum c \<or> c = chr CHR ''-'' \<or> c = chr CHR ''.'' \<or> c = chr CHR ''_''
      \<or> c = chr CHR ''~'')"

definition nameSegment :: "jsstring \<Rightarrow> bool" where
  "nameSegment n =
     (case n of
        [] \<Rightarrow> False
      | c # cs \<Rightarrow> c \<noteq> chr CHR ''.'' \<and> c \<noteq> chr CHR ''_'' \<and> list_all nameChar (c # cs))"

definition packageNameGrammar :: "jsstring \<Rightarrow> bool" where
  "packageNameGrammar name =
     (nameSegment name
      \<or> (\<exists>sc n. name = chr CHR ''@'' # sc @ chr CHR ''/'' # n
            \<and> scopeSegment sc \<and> nameSegment n))"

text \<open>
  The substring behind the first separator, and the part of a string before the next
  separator (the whole string when there is none).
\<close>

definition substringAfterFirst :: "jschar \<Rightarrow> jsstring \<Rightarrow> jsstring" where
  "substringAfterFirst sep s = drop 1 (dropWhile (\<lambda>c. c \<noteq> sep) s)"

definition upToNext :: "jschar \<Rightarrow> jsstring \<Rightarrow> jsstring" where
  "upToNext sep s = takeWhile (\<lambda>c. c \<noteq> sep) s"

text \<open>The ASCII letters and digits, and the characters a normalised name is made of.\<close>

definition isAlnum :: "jschar \<Rightarrow> bool" where
  "isAlnum c = (inRange CHR ''A'' CHR ''Z'' c \<or> isLowerAlnum c)"

definition normalChar :: "jschar \<Rightarrow> bool" where
  "normalChar c = (isLowerAlnum c \<or> c = chr CHR ''-'' \<or> c = chr CHR ''~'')"


section \<open>Environments for the examples\<close>

text \<open>
  The user runs the tool with \<^verbatim>\<open>My App\<close>, accepts the suggested name and asks for the
  install; the manifest of the template has a name and a version; \<^verbatim>\<open>npm install\<close>
  creates \<^verbatim>\<open>node_modules\<close> and fails with exit code 1. The parser and the printer of
  the examples know manifests of string fields, written \<^verbatim>\<open>key=value;\<close>.
\<close>

fun examplePrint :: "(jsstring \<times> int json) list \<Rightarrow> jsstring" where
  "examplePrint [] = []"
| "examplePrint ((k, JString v) # props) = k @ str ''='' @ v @ str '';'' @ examplePrint props"
| "examplePrint (p # props) = examplePrint props"

definition exampleProps :: "(jsstring \<times> int json) list" where
  "exampleProps = [(str ''name'', JString (str ''template'')), (str ''version'', JString (str ''1''))]"

definition exampleEnv :: "int env" where
  "exampleEnv =
     \<lparr>argv2 = Some (str ''My App''),
      cwd = [str ''home''],
      dirname = [str ''opt'', str ''tool''],
      unicodeLower = map asciiLower,
      prompt = (\<lambda>initial validate.
        if validate initial then Inr \<lparr>packageName = initial, installDeps = True\<rparr>
        else Inl PromptError),
      copy = (\<lambda>src dest files.
        (None, (dest, Dir)
               # (dest @ [str ''package.json''], File (str ''name=template;version=1;''))
               # files)),
      jsonParse = (\<lambda>content.
        if content = str ''name=template;version=1;'' then Some (JObject exampleProps)
        else None),
      jsonStringify = (\<lambda>v spaces.
        case v of JObject props \<Rightarrow> examplePrint props | _ \<Rightarrow> str ''null''),
      npmInstall = (\<lambda>dest files. (Some 1, (dest @ [str ''node_modules''], Dir) # files)),
      writeFailure = (\<lambda>p content files. None),
      removeFailure = (\<lambda>p files. None)\<rparr>"

text \<open>
  The same, with a manifest that cannot be written: the write is refused and the file
  keeps its content.
\<close>

definition readOnlyEnv :: "int env" where
  "readOnlyEnv =
     exampleEnv
       \<lparr>writeFailure := (\<lambda>p content files.
          case map_of files p of Some (File old) \<Rightarrow> Some old | _ \<Rightarrow> Some [])\<rparr>"

text \<open>
  The same, with a destination that cannot be removed: the removal is refused and
  deletes nothing.
\<close>

definition busyEnv :: "int env" where
  "busyEnv = exampleEnv \<lparr>removeFailure := (\<lambda>p files. Some files)\<rparr>"

definition exampleDest :: path where
  "exampleDest = [str ''home'', str ''my-app'']"

definition exampleCopied :: fs where
  "exampleCopied =
     [(exampleDest, Dir),
      (exampleDest @ [str ''package.json''], File (str ''name=template;version=1;''))]"

definition examplePatched :: fs where
  "examplePatched =
     [(exampleDest @ [str ''package.json''], File (str ''name=my-app;version=1;'')),
      (exampleDest, Dir)]"

definition exampleInstalled :: fs where
  "exampleInstalled = (exampleDest @ [str ''node_modules''], Dir) # examplePatched"

section \<open>Splitting and replacing\<close>

lemma split_not_Nil: "split sep s \<noteq> []"
  by (induction s) (auto split: list.splits)

lemma split_no_sep: "sep \<notin> set s \<Longrightarrow> split sep s = [s]"
  by (induction s) auto

lemma hd_split: "hd (split sep s) = upToNext sep s"
  by (induction s) (auto simp: upToNext_def split_not_Nil split: list.splits)

lemma split_at_first:
  "sep \<in> set s \<Longrightarrow> split sep s = upToNext sep s # split sep (substringAfterFirst sep s)"
  by (induction s)
    (auto simp: upToNext_def substringAfterFirst_def split_not_Nil split: list.splits)

lemma upToNext_no_sep: "sep \<notin> set s \<Longrightarrow> upToNext sep s = s"
  by (auto simp: upToNext_def)

lemma substringAfterFirst_append:
  "sep \<notin> set u \<Longrightarrow> substringAfterFirst sep (u @ sep # v) = v"
  by (induction u) (auto simp: substringAfterFirst_def)

lemma dirName_with_slash:
  assumes "includesChar name (chr CHR ''/'')"
  shows "packageNameToDirName name =
         Some (upToNext (chr CHR ''/'') (substringAfterFirst (chr CHR ''/'') name))"
proof -
  let ?sep = "chr CHR ''/''"
  let ?rest = "substringAfterFirst ?sep name"
  from assms have "?sep \<in> set name" by (simp add: includesChar_def)
  then have s: "split ?sep name = upToNext ?sep name # split ?sep ?rest"
    by (rule split_at_first)
  obtain w ws where r: "split ?sep ?rest = w # ws"
    using split_not_Nil [of ?sep ?rest] by (cases "split ?sep ?rest") auto
  have "w = upToNext ?sep ?rest"
    using hd_split [of ?sep ?rest] r by simp
  with s r assms show ?thesis
    by (simp add: packageNameToDirName_def)
qed

lemma dirName_cases:
  "packageNameToDirName name =
     (if includesChar name (chr CHR ''/'')
      then Some (upToNext (chr CHR ''/'') (substringAfterFirst (chr CHR ''/'') name))
      else Some name)"
  by (simp add: dirName_with_slash) (simp add: packageNameToDirName_def)

lemma set_replaceRuns: "set (replaceRuns C rep s) \<subseteq> set rep \<union> {c \<in> set s. \<not> C c}"
proof (induction C rep s rule: replaceRuns.induct)
  case (1 C rep)
  show ?case by simp
next
  case (2 C rep c cs)
  show ?case
  proof (cases "C c")
    case True
    with 2 have "set (replaceRuns C rep (dropWhile C cs))
        \<subseteq> set rep \<union> {c \<in> set (dropWhile C cs). \<not> C c}"
      by simp
    moreover have "set (dropWhile C cs) \<subseteq> set cs" by (auto dest: set_dropWhileD)
    ultimately show ?thesis using True by auto
  next
    case False
    with 2 show ?thesis by auto
  qed
qed

lemma dropWhile_keeps: "c \<in> set s \<Longrightarrow> \<not> C c \<Longrightarrow> c \<in> set (dropWhile C s)"
  by (induction s) auto

lemma replaceRuns_keeps: "c \<in> set s \<Longrightarrow> \<not> C c \<Longrightarrow> c \<in> set (replaceRuns C rep s)"
proof (induction C rep s rule: replaceRuns.induct)
  case (1 C rep)
  then show ?case by simp
next
  case (2 C rep d ds)
  show ?case
  proof (cases "C d")
    case True
    with 2 have "c \<in> set ds" by auto
    with 2 have "c \<in> set (dropWhile C ds)" by (simp add: dropWhile_keeps)
    with 2 True show ?thesis by simp
  next
    case False
    with 2 show ?thesis by auto
  qed
qed

lemma replaceLeading_keeps:
  "c \<in> set s \<Longrightarrow> \<not> C c \<Longrightarrow> c \<in> set (replaceLeading C rep s)"
  by (cases s) auto

lemma trim_keeps: "c \<in> set s \<Longrightarrow> \<not> isWhiteSpace c \<Longrightarrow> c \<in> set (trim s)"
  by (simp add: trim_def dropWhile_keeps)

lemma replaceRuns_id: "\<forall>c \<in> set s. \<not> C c \<Longrightarrow> replaceRuns C rep s = s"
  by (induction s) auto

lemma replaceLeading_id: "\<forall>c \<in> set s. \<not> C c \<Longrightarrow> replaceLeading C rep s = s"
  by (cases s) auto

lemma dropWhile_none: "\<forall>c \<in> set s. \<not> C c \<Longrightarrow> dropWhile C s = s"
  by (cases s) auto

lemma trim_id: "\<forall>c \<in> set s. \<not> isWhiteSpace c \<Longrightarrow> trim s = s"
  by (simp add: trim_def dropWhile_none)

section \<open>The characters of a normalised name\<close>

lemma class_normal:
  "inClass [Rng CHR ''a'' CHR ''z'', Rng CHR ''0'' CHR ''9'', Ch CHR ''-'', Ch CHR ''~''] c
   \<longleftrightarrow> normalChar c"
  by (auto simp: inClass_def normalChar_def isLowerAlnum_def)

lemma class_dot_underscore:
  "inClass [Ch CHR ''.'', Ch CHR ''_''] c \<longleftrightarrow> c = chr CHR ''.'' \<or> c = chr CHR ''_''"
  by (auto simp: inClass_def)

lemma normalChar_facts:
  assumes "normalChar c"
  shows "\<not> isWhiteSpace c" and "isAscii c" and "asciiLower c = c"
    and "\<not> inRange CHR ''A'' CHR ''Z'' c"
    and "c \<noteq> chr CHR ''.''" and "c \<noteq> chr CHR ''_''"
    and "c \<noteq> chr CHR ''/''" and "c \<noteq> chr CHR ''@''"
  using assms
  by (auto simp: normalChar_def isLowerAlnum_def isWhiteSpace_def isAscii_def asciiLower_def
      inRange_def chr_def)

lemma isAlnum_facts:
  assumes "isAlnum c"
  shows "\<not> isWhiteSpace c" and "isLowerAlnum (asciiLower c)"
  using assms
  by (auto simp: isAlnum_def isLowerAlnum_def isWhiteSpace_def asciiLower_def inRange_def
      chr_def)

lemma isLowerAlnum_facts:
  assumes "isLowerAlnum c"
  shows "normalChar c" and "\<not> isWhiteSpace c"
  using assms
  by (auto simp: normalChar_def isLowerAlnum_def isWhiteSpace_def inRange_def chr_def)

lemma toLowerCase_id: "\<forall>c \<in> set s. normalChar c \<Longrightarrow> toLowerCase u s = s"
  by (simp add: toLowerCase_def list_all_iff normalChar_facts map_idI)

lemma toValidPackageName_chars: "c \<in> set (toValidPackageName u s) \<Longrightarrow> normalChar c"
  using set_replaceRuns [of "\<lambda>c. \<not> normalChar c" "str ''-''"]
  by (fastforce simp: toValidPackageName_def class_normal str_def normalChar_def)

lemma toValidPackageName_fixes:
  assumes "\<forall>c \<in> set t. normalChar c"
  shows "toValidPackageName u t = t"
proof -
  from assms have "trim t = t" by (simp add: trim_id normalChar_facts)
  moreover from assms have "toLowerCase u t = t" by (rule toLowerCase_id)
  moreover from assms have "replaceRuns isWhiteSpace (str ''-'') t = t"
    by (simp add: replaceRuns_id normalChar_facts)
  moreover from assms
  have "replaceLeading (inClass [Ch CHR ''.'', Ch CHR ''_'']) [] t = t"
    by (intro replaceLeading_id) (simp add: class_dot_underscore normalChar_facts)
  moreover from assms have "replaceRuns (\<lambda>c. \<not> normalChar c) (str ''-'') t = t"
    by (simp add: replaceRuns_id)
  ultimately show ?thesis by (simp add: toValidPackageName_def class_normal)
qed

lemma toValidPackageName_keeps:
  assumes "a \<in> set s" and "isAlnum a"
    and "\<And>x. \<not> list_all isAscii x \<Longrightarrow> list_ex isAlnum x \<Longrightarrow> list_ex isLowerAlnum (u x)"
  shows "\<exists>b \<in> set (toValidPackageName u s). isLowerAlnum b"
proof -
  from assms have a: "a \<in> set (trim s)" by (simp add: trim_keeps isAlnum_facts)
  have "\<exists>b \<in> set (toLowerCase u (trim s)). isLowerAlnum b"
  proof (cases "list_all isAscii (trim s)")
    case True
    from a have "asciiLower a \<in> set (map asciiLower (trim s))" by simp
    moreover from assms(2) have "isLowerAlnum (asciiLower a)" by (rule isAlnum_facts)
    ultimately show ?thesis using True by (auto simp: toLowerCase_def)
  next
    case False
    from a assms(2) have "list_ex isAlnum (trim s)" by (auto simp: list_ex_iff)
    with False have "list_ex isLowerAlnum (u (trim s))" by (rule assms(3))
    with False show ?thesis by (simp add: toLowerCase_def list_ex_iff)
  qed
  then obtain b where b: "b \<in> set (toLowerCase u (trim s))" and l: "isLowerAlnum b" by blast
  from l have n: "normalChar b" and w: "\<not> isWhiteSpace b" by (rule isLowerAlnum_facts)+
  from b w have "b \<in> set (replaceRuns isWhiteSpace (str ''-'') (toLowerCase u (trim s)))"
    by (rule replaceRuns_keeps)
  moreover from n have "\<not> inClass [Ch CHR ''.'', Ch CHR ''_''] b"
    by (simp add: class_dot_underscore normalChar_facts)
  ultimately have "b \<in> set (replaceLeading (inClass [Ch CHR ''.'', Ch CHR ''_'']) []
      (replaceRuns isWhiteSpace (str ''-'') (toLowerCase u (trim s))))"
    by (rule replaceLeading_keeps)
  with n have "b \<in> set (toValidPackageName u s)"
    by (simp add: toValidPackageName_def class_normal replaceRuns_keeps)
  with l show ?thesis by blast
qed

section \<open>The matcher decides the words of a pattern\<close>

lemma nullable_lang: "nullable r \<longleftrightarrow> [] \<in> lang r"
  by (induction r) (auto simp: conc_def intro: star_Nil)

lemma Cons_in_conc:
  "c # w \<in> conc A B \<longleftrightarrow>
     (\<exists>u v. w = u @ v \<and> c # u \<in> A \<and> v \<in> B) \<or> ([] \<in> A \<and> c # w \<in> B)"
  unfolding conc_def
  by (auto simp: Cons_eq_append_conv)

lemma Cons_in_star_D:
  assumes "x \<in> star A" and "x = c # w"
  shows "\<exists>u v. w = u @ v \<and> c # u \<in> A \<and> v \<in> star A"
  using assms
proof (induction arbitrary: w rule: star.induct)
  case star_Nil
  then show ?case by simp
next
  case (star_Step u v)
  show ?case
  proof (cases u)
    case Nil
    with star_Step show ?thesis by simp
  next
    case (Cons d u')
    with star_Step.prems have "d = c" and "w = u' @ v" by simp_all
    with Cons star_Step.hyps show ?thesis by blast
  qed
qed

lemma Cons_in_star:
  "c # w \<in> star A \<longleftrightarrow> (\<exists>u v. w = u @ v \<and> c # u \<in> A \<and> v \<in> star A)"
proof
  assume "c # w \<in> star A"
  then show "\<exists>u v. w = u @ v \<and> c # u \<in> A \<and> v \<in> star A"
    by (rule Cons_in_star_D) simp
next
  assume "\<exists>u v. w = u @ v \<and> c # u \<in> A \<and> v \<in> star A"
  then obtain u v where "w = u @ v" and "c # u \<in> A" and "v \<in> star A" by blast
  then show "c # w \<in> star A"
    using star_Step [of "c # u" A v] by simp
qed

lemma lang_deriv: "w \<in> lang (deriv c r) \<longleftrightarrow> c # w \<in> lang r"
proof (induction r arbitrary: w)
  case (Seq r s)
  then show ?case
    by (auto simp: Cons_in_conc nullable_lang) (auto simp: conc_def)
next
  case (Star r)
  then show ?case
    by (auto simp: Cons_in_star) (auto simp: conc_def)
qed auto

lemma matches_lang: "matches r s \<longleftrightarrow> s \<in> lang r"
  by (induction s arbitrary: r) (simp_all add: nullable_lang lang_deriv)

lemma star_Class: "star {[c] | c. P c} = {w. list_all P w}"
proof (intro set_eqI iffI)
  fix w assume "w \<in> star {[c] | c. P c}"
  then show "w \<in> {w. list_all P w}"
    by (induction rule: star.induct) auto
next
  fix w assume "w \<in> {w. list_all P w}"
  then have "list_all P w" by simp
  then show "w \<in> star {[c] | c. P c}"
  proof (induction w)
    case Nil
    show ?case by (rule star_Nil)
  next
    case (Cons c w)
    then have "[c] \<in> {[c] | c. P c}" and "w \<in> star {[c] | c. P c}" by auto
    then have "[c] @ w \<in> star {[c] | c. P c}" by (rule star_Step)
    then show ?case by simp
  qed
qed

lemma class_scopeFirst:
  "inClass [Rng CHR ''a'' CHR ''z'', Rng CHR ''0'' CHR ''9'', Ch CHR ''-'', Ch CHR ''*'',
            Ch CHR ''~''] c
   \<longleftrightarrow> scopeChar c \<and> c \<noteq> chr CHR ''.'' \<and> c \<noteq> chr CHR ''_''"
  by (auto simp: inClass_def scopeChar_def isLowerAlnum_def inRange_def chr_def)

lemma class_scopeRest:
  "inClass [Rng CHR ''a'' CHR ''z'', Rng CHR ''0'' CHR ''9'', Ch CHR ''-'', Ch CHR ''*'',
            Ch CHR ''.'', Ch CHR ''_'', Ch CHR ''~''] = scopeChar"
  by (auto simp: inClass_def scopeChar_def isLowerAlnum_def fun_eq_iff)

lemma class_nameFirst:
  "inClass [Rng CHR ''a'' CHR ''z'', Rng CHR ''0'' CHR ''9'', Ch CHR ''-'', Ch CHR ''~''] c
   \<longleftrightarrow> nameChar c \<and> c \<noteq> chr CHR ''.'' \<and> c \<noteq> chr CHR ''_''"
  by (auto simp: inClass_def nameChar_def isLowerAlnum_def inRange_def chr_def)

lemma class_nameRest:
  "inClass [Rng CHR ''a'' CHR ''z'', Rng CHR ''0'' CHR ''9'', Ch CHR ''-'', Ch CHR ''.'',
            Ch CHR ''_'', Ch CHR ''~''] = nameChar"
  by (auto simp: inClass_def nameChar_def isLowerAlnum_def fun_eq_iff)

lemma class_single: "inClass [Ch a] c \<longleftrightarrow> c = chr a"
  by (simp add: inClass_def)

lemma concI: "u \<in> A \<Longrightarrow> v \<in> B \<Longrightarrow> u @ v \<in> conc A B"
  by (auto simp: conc_def)

lemma conc_Class: "conc {[c] | c. P c} B = {c # v | c v. P c \<and> v \<in> B}"
proof (intro set_eqI iffI)
  fix x assume "x \<in> conc {[c] | c. P c} B"
  then show "x \<in> {c # v | c v. P c \<and> v \<in> B}" by (auto simp: conc_def)
next
  fix x assume "x \<in> {c # v | c v. P c \<and> v \<in> B}"
  then obtain c v where x: "x = [c] @ v" and "P c" and "v \<in> B" by auto
  then have "[c] @ v \<in> conc {[c] | c. P c} B" by (intro concI) auto
  with x show "x \<in> conc {[c] | c. P c} B" by simp
qed

lemma conc_snoc: "conc {w. Q w} {[d]} = {w @ [d] | w. Q w}"
  by (auto simp: conc_def)

lemma lang_nameSegment:
  "lang (Seq (Class [Rng CHR ''a'' CHR ''z'', Rng CHR ''0'' CHR ''9'',
                      Ch CHR ''-'', Ch CHR ''~''])
              (Star (Class [Rng CHR ''a'' CHR ''z'', Rng CHR ''0'' CHR ''9'',
                            Ch CHR ''-'', Ch CHR ''.'', Ch CHR ''_'', Ch CHR ''~''])))
   = {n. nameSegment n}"
proof (rule set_eqI)
  fix n
  show "n \<in> lang (Seq (Class [Rng CHR ''a'' CHR ''z'', Rng CHR ''0'' CHR ''9'',
                      Ch CHR ''-'', Ch CHR ''~''])
              (Star (Class [Rng CHR ''a'' CHR ''z'', Rng CHR ''0'' CHR ''9'',
                            Ch CHR ''-'', Ch CHR ''.'', Ch CHR ''_'', Ch CHR ''~''])))
        \<longleftrightarrow> n \<in> {n. nameSegment n}"
    by (cases n)
      (auto simp: conc_Class star_Class class_nameFirst class_nameRest nameSegment_def)
qed

lemma lang_Seq_Class:
  "lang (Seq (Class items) r) = {c # v | c v. inClass items c \<and> v \<in> lang r}"
  by (simp add: conc_Class)

lemma lang_Star_Class_Lit:
  "lang (Seq (Star (Class items)) (Lit d)) = {w @ [chr d] | w. list_all (inClass items) w}"
proof -
  have "{[c] | c. inClass [Ch d] c} = {[chr d]}"
    by (auto simp: class_single)
  then show ?thesis
    using conc_snoc [of "list_all (inClass items)" "chr d"] by (simp add: star_Class)
qed

lemma lang_scopePrefix:
  "lang (Seq (Lit CHR ''@'')
               (Seq (Class [Rng CHR ''a'' CHR ''z'', Rng CHR ''0'' CHR ''9'',
                            Ch CHR ''-'', Ch CHR ''*'', Ch CHR ''~''])
               (Seq (Star (Class [Rng CHR ''a'' CHR ''z'', Rng CHR ''0'' CHR ''9'',
                                  Ch CHR ''-'', Ch CHR ''*'', Ch CHR ''.'', Ch CHR ''_'',
                                  Ch CHR ''~'']))
                    (Lit CHR ''/''))))
   = {chr CHR ''@'' # sc @ [chr CHR ''/''] | sc. scopeSegment sc}"
  (is "?L = ?R")
proof (intro set_eqI iffI)
  fix x assume "x \<in> ?L"
  then obtain c w where x: "x = chr CHR ''@'' # (c # w) @ [chr CHR ''/'']"
    and c: "scopeChar c \<and> c \<noteq> chr CHR ''.'' \<and> c \<noteq> chr CHR ''_''"
    and w: "list_all scopeChar w"
    unfolding lang_Seq_Class lang_Star_Class_Lit class_scopeFirst class_scopeRest class_single
    by auto
  from c w have "scopeSegment (c # w)" by (simp add: scopeSegment_def)
  with x show "x \<in> ?R" by blast
next
  fix x assume "x \<in> ?R"
  then obtain sc where x: "x = chr CHR ''@'' # sc @ [chr CHR ''/'']" and sc: "scopeSegment sc"
    by blast
  from sc obtain c w where "sc = c # w" by (cases sc) (auto simp: scopeSegment_def)
  with x sc show "x \<in> ?L"
    unfolding lang_Seq_Class lang_Star_Class_Lit class_scopeFirst class_scopeRest class_single
    by (auto simp: scopeSegment_def)
qed

lemma isValidPackageName_grammar: "isValidPackageName name \<longleftrightarrow> packageNameGrammar name"
proof -
  have "lang packageNamePattern
        = conc ({chr CHR ''@'' # sc @ [chr CHR ''/''] | sc. scopeSegment sc} \<union> {[]})
               {n. nameSegment n}"
    unfolding packageNamePattern_def lang.simps(4) [of "Opt _"] lang.simps(5) lang.simps(2)
      lang_nameSegment lang_scopePrefix ..
  also have "\<dots> = {name. packageNameGrammar name}"
  proof (intro set_eqI iffI)
    fix x
    assume "x \<in> conc ({chr CHR ''@'' # sc @ [chr CHR ''/''] | sc. scopeSegment sc} \<union> {[]})
               {n. nameSegment n}"
    then show "x \<in> {name. packageNameGrammar name}"
      by (auto simp: conc_def packageNameGrammar_def)
  next
    fix x
    assume "x \<in> {name. packageNameGrammar name}"
    then consider "nameSegment x"
      | sc n where "x = (chr CHR ''@'' # sc @ [chr CHR ''/'']) @ n" "scopeSegment sc" "nameSegment n"
      by (auto simp: packageNameGrammar_def)
    then show "x \<in> conc ({chr CHR ''@'' # sc @ [chr CHR ''/''] | sc. scopeSegment sc} \<union> {[]})
               {n. nameSegment n}"
    proof cases
      case 1
      then have "[] @ x \<in> conc ({chr CHR ''@'' # sc @ [chr CHR ''/''] | sc. scopeSegment sc} \<union> {[]})
               {n. nameSegment n}"
        by (intro concI) auto
      then show ?thesis by simp
    next
      case 2
      then have "(chr CHR ''@'' # sc @ [chr CHR ''/'']) @ n
          \<in> conc ({chr CHR ''@'' # sc @ [chr CHR ''/''] | sc. scopeSegment sc} \<union> {[]})
               {n. nameSegment n}"
        by (intro concI) auto
      with 2 show ?thesis by simp
    qed
  qed
  finally show ?thesis
    by (simp add: isValidPackageName_def matches_lang)
qed

lemma normal_nameSegment:
  assumes "t \<noteq> []" and "\<forall>c \<in> set t. normalChar c"
  shows "nameSegment t"
proof -
  from assms(1) obtain c cs where t: "t = c # cs" by (cases t) auto
  have "normalChar d \<Longrightarrow> nameChar d" for d
    by (auto simp: normalChar_def nameChar_def)
  with assms(2) have "list_all nameChar t" by (simp add: list_all_iff)
  with t assms(2) show ?thesis
    by (simp add: nameSegment_def normalChar_facts)
qed

lemma nameSegment_facts:
  assumes "nameSegment d"
  shows "d \<noteq> []" and "chr CHR ''/'' \<notin> set d" and "d \<noteq> str ''.''" and "d \<noteq> str ''..''"
    and "hd d \<noteq> chr CHR ''/''"
proof -
  from assms obtain c cs where d: "d = c # cs" and c: "c \<noteq> chr CHR ''.''"
    and all: "list_all nameChar (c # cs)"
    by (cases d) (auto simp: nameSegment_def)
  have slash: "\<not> nameChar (chr CHR ''/'')"
    by (simp add: nameChar_def isLowerAlnum_def inRange_def chr_def)
  from d show "d \<noteq> []" by simp
  from all slash show "chr CHR ''/'' \<notin> set d" unfolding d list_all_iff by blast
  from d c show "d \<noteq> str ''.''" and "d \<noteq> str ''..''" by (auto simp: str_def)
  from all slash show "hd d \<noteq> chr CHR ''/''" unfolding d by auto
qed

lemma scopeSegment_no_slash: "scopeSegment sc \<Longrightarrow> chr CHR ''/'' \<notin> set sc"
proof -
  assume "scopeSegment sc"
  then have "list_all scopeChar sc"
    by (cases sc) (auto simp: scopeSegment_def)
  moreover have "\<not> scopeChar (chr CHR ''/'')"
    by (simp add: scopeChar_def isLowerAlnum_def inRange_def chr_def)
  ultimately show ?thesis unfolding list_all_iff by blast
qed

lemma dirName_of_valid:
  assumes "isValidPackageName name"
  shows "\<exists>d. packageNameToDirName name = Some d \<and> nameSegment d"
proof -
  from assms have "packageNameGrammar name" by (simp add: isValidPackageName_grammar)
  then consider "nameSegment name"
    | sc n where "name = chr CHR ''@'' # sc @ chr CHR ''/'' # n" "scopeSegment sc" "nameSegment n"
    by (auto simp: packageNameGrammar_def)
  then show ?thesis
  proof cases
    case 1
    then have "\<not> includesChar name (chr CHR ''/'')"
      by (simp add: includesChar_def nameSegment_facts)
    with 1 show ?thesis by (simp add: packageNameToDirName_def)
  next
    case 2
    have at: "chr CHR ''@'' \<noteq> chr CHR ''/''" by (simp add: chr_def)
    from 2 have "chr CHR ''/'' \<notin> set (chr CHR ''@'' # sc)"
      using at by (auto dest: scopeSegment_no_slash)
    then have "substringAfterFirst (chr CHR ''/'') ((chr CHR ''@'' # sc) @ chr CHR ''/'' # n) = n"
      by (rule substringAfterFirst_append)
    with 2 have rest: "substringAfterFirst (chr CHR ''/'') name = n" by simp
    from 2 have "upToNext (chr CHR ''/'') n = n"
      by (simp add: upToNext_no_sep nameSegment_facts)
    moreover from 2 have "includesChar name (chr CHR ''/'')" by (simp add: includesChar_def)
    ultimately show ?thesis using 2 rest by (simp add: dirName_with_slash)
  qed
qed

lemma resolve_segment:
  assumes "nameSegment d"
  shows "resolve dir d = dir @ [d]"
proof -
  from assms obtain c cs where d: "d = c # cs" by (cases d) (auto simp: nameSegment_def)
  from assms have "c \<noteq> chr CHR ''/''" using nameSegment_facts(5) [of d] d by simp
  moreover from assms have "split (chr CHR ''/'') d = [d]"
    by (simp add: split_no_sep nameSegment_facts)
  ultimately show ?thesis
    using assms d nameSegment_facts(3,4) [of d] by (auto simp: resolve_def)
qed

lemma asciiLower_tables:
  "\<not> list_all isAscii x \<Longrightarrow> list_ex isAlnum x \<Longrightarrow> list_ex isLowerAlnum (map asciiLower x)"
  using isAlnum_facts(2) by (fastforce simp: list_ex_iff)

lemmas eval_defs =
  str_def chr_def inRange_def inClass_def isWhiteSpace_def isAscii_def asciiLower_def
  trim_def toLowerCase_def toValidPackageName_def packageNameToDirName_def includesChar_def
  isValidPackageName_def packageNamePattern_def

section \<open>Claims about the name functions\<close>

text \<open>
  C1 (amended). The claim reads the grammar of the data model as a name segment of
  lowercase alphanumerics, \<^verbatim>\<open>-\<close>, \<^verbatim>\<open>.\<close> and \<^verbatim>\<open>~\<close>. The pattern of
  \<^verbatim>\<open>isValidPackageName\<close> also takes \<^verbatim>\<open>_\<close> behind the first character of the name
  segment: \<^verbatim>\<open>a_b\<close> is accepted, and the grammar as worded rejects it.
\<close>

theorem isValidPackageName_underscore_counterexample:
  "isValidPackageName (str ''a_b'') \<and> \<not> specPackageName (str ''a_b'')"
  by (simp add: eval_defs specPackageName_def specNameSegment_def specNameChar_def
      isLowerAlnum_def)

text \<open>
  C1, as amended: for every string, \<^verbatim>\<open>isValidPackageName\<close> is true exactly when the
  string is a name segment, or \<^verbatim>\<open>@\<close>, a scope segment, \<^verbatim>\<open>/\<close> and a name segment.
  A name segment is a non-empty string of lowercase alphanumerics, \<^verbatim>\<open>-\<close>, \<^verbatim>\<open>.\<close>,
  \<^verbatim>\<open>_\<close> and \<^verbatim>\<open>~\<close> that begins with neither \<^verbatim>\<open>.\<close> nor \<^verbatim>\<open>_\<close>; a scope segment is
  the same with \<^verbatim>\<open>*\<close> allowed as well.
\<close>

theorem isValidPackageName_iff_grammar:
  "isValidPackageName name \<longleftrightarrow> packageNameGrammar name"
  by (rule isValidPackageName_grammar)

theorem isValidPackageName_iff_grammar_witness:
  "isValidPackageName (str ''@acme/my_widget'') \<and> packageNameGrammar (str ''@acme/my_widget'')"
  using isValidPackageName_iff_grammar [of "str ''@acme/my_widget''"]
  by (simp add: eval_defs)

text \<open>
  C4 (amended). The claim says that a name with a \<^verbatim>\<open>/\<close> is mapped to everything behind
  its first \<^verbatim>\<open>/\<close>. \<^verbatim>\<open>packageNameToDirName\<close> takes element 1 of the split, which ends
  at the second \<^verbatim>\<open>/\<close>: for \<^verbatim>\<open>@scope/a/b\<close> it returns \<^verbatim>\<open>a\<close>, not \<^verbatim>\<open>a/b\<close>.
\<close>

theorem packageNameToDirName_after_slash_counterexample:
  "includesChar (str ''@scope/a/b'') (chr CHR ''/'')
   \<and> substringAfterFirst (chr CHR ''/'') (str ''@scope/a/b'') = str ''a/b''
   \<and> packageNameToDirName (str ''@scope/a/b'') \<noteq> Some (str ''a/b'')"
  by (simp add: eval_defs substringAfterFirst_def)

text \<open>
  C4, as amended: for every string \<open>name\<close>, if \<open>name\<close> contains \<^verbatim>\<open>/\<close> then
  \<^verbatim>\<open>packageNameToDirName\<close> returns the part of \<open>name\<close> between its first \<^verbatim>\<open>/\<close> and
  its next \<^verbatim>\<open>/\<close> (up to the end of \<open>name\<close> when there is no second \<^verbatim>\<open>/\<close>);
  otherwise it returns \<open>name\<close> unchanged.
\<close>

theorem packageNameToDirName_segment:
  "(includesChar name (chr CHR ''/'') \<longrightarrow>
      packageNameToDirName name =
        Some (upToNext (chr CHR ''/'') (substringAfterFirst (chr CHR ''/'') name)))
   \<and> (\<not> includesChar name (chr CHR ''/'') \<longrightarrow> packageNameToDirName name = Some name)"
  by (simp add: dirName_cases)

theorem packageNameToDirName_segment_witness:
  "includesChar (str ''@scope/a/b'') (chr CHR ''/'')
   \<and> packageNameToDirName (str ''@scope/a/b'') = Some (str ''a'')
   \<and> \<not> includesChar (str ''plainname'') (chr CHR ''/'')
   \<and> packageNameToDirName (str ''plainname'') = Some (str ''plainname'')"
  using packageNameToDirName_segment [of "str ''@scope/a/b''"]
    packageNameToDirName_segment [of "str ''plainname''"]
  by (simp add: includesChar_def str_def chr_def upToNext_def substringAfterFirst_def)

text \<open>
  C5. \<^verbatim>\<open>packageNameToDirName("@scope/pkg")\<close> is \<^verbatim>\<open>"pkg"\<close>,
  \<^verbatim>\<open>packageNameToDirName("plainname")\<close> is \<^verbatim>\<open>"plainname"\<close>, and
  \<^verbatim>\<open>packageNameToDirName("@scope/a/b")\<close> is \<^verbatim>\<open>"a"\<close>: the input is split at every
  \<^verbatim>\<open>/\<close> into \<^verbatim>\<open>["@scope", "a", "b"]\<close> and element 1 is taken.
\<close>

theorem packageNameToDirName_examples:
  "packageNameToDirName (str ''@scope/pkg'') = Some (str ''pkg'')
   \<and> packageNameToDirName (str ''plainname'') = Some (str ''plainname'')
   \<and> split (chr CHR ''/'') (str ''@scope/a/b'') = [str ''@scope'', str ''a'', str ''b'']
   \<and> packageNameToDirName (str ''@scope/a/b'') = Some (str ''a'')"
  by (simp add: eval_defs)

text \<open>
  C6. For every non-empty string \<open>s\<close> with at least one ASCII letter or digit,
  \<^verbatim>\<open>isValidPackageName(toValidPackageName(s))\<close> is true. Where the string has a code
  unit beyond ASCII, the case tables of the engine are assumed to do what Unicode's do:
  lower-casing a string that holds an ASCII letter or digit gives a string that holds a
  lowercase ASCII letter or digit.
\<close>

theorem toValidPackageName_valid:
  assumes "s \<noteq> []" and "c \<in> set s" and "isAlnum c"
    and "\<And>x. \<not> list_all isAscii x \<Longrightarrow> list_ex isAlnum x \<Longrightarrow> list_ex isLowerAlnum (u x)"
  shows "isValidPackageName (toValidPackageName u s)"
proof -
  from assms(2-4) obtain b where "b \<in> set (toValidPackageName u s)"
    using toValidPackageName_keeps [of c s u] by blast
  then have "toValidPackageName u s \<noteq> []" by auto
  then have "nameSegment (toValidPackageName u s)"
    by (rule normal_nameSegment) (simp add: toValidPackageName_chars)
  then show ?thesis
    by (simp add: isValidPackageName_grammar packageNameGrammar_def)
qed

theorem toValidPackageName_valid_witness:
  "233 # str ''My Cool App'' \<noteq> [] \<and> chr CHR ''M'' \<in> set (233 # str ''My Cool App'')
   \<and> isAlnum (chr CHR ''M'')
   \<and> toValidPackageName (map asciiLower) (233 # str ''My Cool App'') = str ''-my-cool-app''
   \<and> isValidPackageName (toValidPackageName (map asciiLower) (233 # str ''My Cool App''))"
proof -
  have h1: "233 # str ''My Cool App'' \<noteq> []" by simp
  have h2: "chr CHR ''M'' \<in> set (233 # str ''My Cool App'')" by (simp add: str_def)
  have h3: "isAlnum (chr CHR ''M'')" by (simp add: isAlnum_def inRange_def chr_def)
  have "toValidPackageName (map asciiLower) (233 # str ''My Cool App'') = str ''-my-cool-app''"
    by (simp add: eval_defs)
  with h1 h2 h3
    toValidPackageName_valid [where u = "map asciiLower", OF h1 h2 h3 asciiLower_tables]
  show ?thesis by simp
qed

text \<open>
  C7. \<^verbatim>\<open>toValidPackageName\<close> is idempotent on every string, whatever the case tables
  of the engine are.
\<close>

theorem toValidPackageName_idempotent:
  "toValidPackageName u (toValidPackageName u s) = toValidPackageName u s"
  by (rule toValidPackageName_fixes) (simp add: toValidPackageName_chars)

text \<open>
  C9. Every character of \<^verbatim>\<open>toValidPackageName(s)\<close> is a lowercase letter, a digit,
  \<^verbatim>\<open>-\<close> or \<^verbatim>\<open>~\<close>; so it is no whitespace, no uppercase letter, and none of \<^verbatim>\<open>.\<close>,
  \<^verbatim>\<open>_\<close>, \<^verbatim>\<open>/\<close> and \<^verbatim>\<open>@\<close>.
\<close>

theorem toValidPackageName_alphabet:
  assumes "c \<in> set (toValidPackageName u s)"
  shows "(inRange CHR ''a'' CHR ''z'' c \<or> inRange CHR ''0'' CHR ''9'' c
           \<or> c = chr CHR ''-'' \<or> c = chr CHR ''~'')
         \<and> \<not> isWhiteSpace c \<and> \<not> inRange CHR ''A'' CHR ''Z'' c
         \<and> c \<noteq> chr CHR ''.'' \<and> c \<noteq> chr CHR ''_'' \<and> c \<noteq> chr CHR ''/''
         \<and> c \<noteq> chr CHR ''@''"
proof -
  from assms have n: "normalChar c" by (rule toValidPackageName_chars)
  then have "inRange CHR ''a'' CHR ''z'' c \<or> inRange CHR ''0'' CHR ''9'' c
           \<or> c = chr CHR ''-'' \<or> c = chr CHR ''~''"
    by (simp add: normalChar_def isLowerAlnum_def)
  with normalChar_facts [OF n] show ?thesis by simp
qed

theorem toValidPackageName_alphabet_witness:
  "toValidPackageName (map asciiLower) (str '' _My.App/@X '') = str ''my-app-x''
   \<and> chr CHR ''m'' \<in> set (toValidPackageName (map asciiLower) (str '' _My.App/@X ''))
   \<and> inRange CHR ''a'' CHR ''z'' (chr CHR ''m'')
   \<and> \<not> isWhiteSpace (chr CHR ''m'')"
proof -
  have e: "toValidPackageName (map asciiLower) (str '' _My.App/@X '') = str ''my-app-x''"
    by (simp add: eval_defs)
  then have m: "chr CHR ''m'' \<in> set (toValidPackageName (map asciiLower) (str '' _My.App/@X ''))"
    by (simp add: str_def)
  have "inRange CHR ''a'' CHR ''z'' (chr CHR ''m'')" by (simp add: inRange_def chr_def)
  with e m toValidPackageName_alphabet [OF m] show ?thesis by simp
qed

text \<open>
  C10. For every name that \<^verbatim>\<open>isValidPackageName\<close> accepts,
  \<^verbatim>\<open>packageNameToDirName\<close> returns a string, and a non-empty one; resolved against a
  directory it names an entry of that directory, never the directory itself.
\<close>

theorem packageNameToDirName_nonempty:
  assumes "isValidPackageName name"
  shows "\<exists>d. packageNameToDirName name = Some d \<and> d \<noteq> []
           \<and> resolve dir d = dir @ [d] \<and> resolve dir d \<noteq> dir"
proof -
  from assms obtain d where d: "packageNameToDirName name = Some d" and n: "nameSegment d"
    using dirName_of_valid by blast
  from n have "d \<noteq> []" by (rule nameSegment_facts)
  moreover from n have "resolve dir d = dir @ [d]" by (rule resolve_segment)
  ultimately show ?thesis using d by simp
qed

theorem packageNameToDirName_nonempty_witness:
  "isValidPackageName (str ''@acme/widget'')
   \<and> packageNameToDirName (str ''@acme/widget'') = Some (str ''widget'')
   \<and> resolve [str ''home''] (str ''widget'') = [str ''home'', str ''widget'']"
proof -
  have v: "isValidPackageName (str ''@acme/widget'')" by (simp add: eval_defs)
  have e: "packageNameToDirName (str ''@acme/widget'') = Some (str ''widget'')"
    by (simp add: eval_defs)
  from packageNameToDirName_nonempty [OF v, of "[str ''home'']"] v e show ?thesis by simp
qed


section \<open>Files, properties and cleanup\<close>




lemma writeFile_ok:
  "writeFailure E p content files = None \<Longrightarrow>
   writeFile E p content files = (None, (p, File content) # filter (\<lambda>e. fst e \<noteq> p) files)"
  by (simp add: writeFile_def)



lemma remove_ok:
  "removeFailure E d files = None \<Longrightarrow>
   remove E d files = (None, filter (\<lambda>e. \<not> prefix d (fst e)) files)"
  by (simp add: remove_def)

lemma remove_refused:
  "removeFailure E d files = Some left \<Longrightarrow> remove E d files = (Some RemoveError, left)"
  by (simp add: remove_def)

lemma filter_absent:
  "\<not> existsSync files d \<Longrightarrow> filter (\<lambda>e. \<not> prefix d (fst e)) files = files"
  by (simp add: existsSync_def list_ex_iff)

lemma not_existsSync_filter: "\<not> existsSync (filter (\<lambda>e. \<not> prefix d (fst e)) files) d"
  by (simp add: existsSync_def list_ex_iff)

lemma updatePackageJson_object:
  assumes "map_of files (join destDir (str ''package.json'')) = Some (File content)"
    and "jsonParse E content = Some (JObject props)"
  shows "updatePackageJson E destDir projectName files =
           writeFile E (join destDir (str ''package.json''))
             (jsonStringify E
                (JObject (setProperty (str ''name'') (JString projectName) props)) 2)
             files"
  using assms by (simp add: updatePackageJson_def readJSON_def writeJSON_def)

lemma install_failed:
  "npmInstall E destDir files = (code, files') \<Longrightarrow> code \<noteq> Some 0 \<Longrightarrow>
   installDependencies E destDir files = (Some (InstallError code), files')"
  by (simp add: installDependencies_def)

lemma main_after_failed_install:
  assumes "argv2 E = Some initialTargetDir" and "initialTargetDir \<noteq> []"
    and "askForOptions E initialTargetDir = Inr opts"
    and "packageNameToDirName (packageName opts) = Some finalDirName"
    and "destDir = resolve (cwd E) finalDirName"
    and "\<not> existsSync files destDir"
    and "copyTemplate E (join (dirname E) (str ''template'')) destDir files = (None, files1)"
    and "updatePackageJson E destDir (packageName opts) files1 = (None, files2)"
    and "installDeps opts"
    and "installDependencies E destDir files2 = (Some e, files3)"
  shows "main E files = catchBlock E (Some destDir) [CopyStep, PatchStep, InstallStep] files3"
  using assms by (simp add: main_def)

section \<open>Runs of the example environments\<close>

lemma example_fields:
  "argv2 exampleEnv = Some (str ''My App'')" "cwd exampleEnv = [str ''home'']"
  "argv2 busyEnv = Some (str ''My App'')" "cwd busyEnv = [str ''home'']"
  "removeFailure exampleEnv p files = None" "removeFailure busyEnv p files = Some files"
  "writeFailure exampleEnv p c files = None" "writeFailure busyEnv p c files = None"
  "jsonParse exampleEnv (str ''name=template;version=1;'') = Some (JObject exampleProps)"
  "jsonParse busyEnv = jsonParse exampleEnv" "jsonParse readOnlyEnv = jsonParse exampleEnv"
  "jsonStringify busyEnv = jsonStringify exampleEnv"
  "jsonStringify readOnlyEnv = jsonStringify exampleEnv"
  by (simp_all add: exampleEnv_def busyEnv_def readOnlyEnv_def)

lemma example_options:
  "askForOptions exampleEnv (str ''My App'')
   = Inr \<lparr>packageName = str ''my-app'', installDeps = True\<rparr>"
  by (simp add: askForOptions_def exampleEnv_def eval_defs)

lemma busy_options:
  "askForOptions busyEnv (str ''My App'')
   = Inr \<lparr>packageName = str ''my-app'', installDeps = True\<rparr>"
  using example_options by (simp add: askForOptions_def busyEnv_def)

lemma example_dirName: "packageNameToDirName (str ''my-app'') = Some (str ''my-app'')"
  by (simp add: eval_defs)

lemma example_resolve: "resolve [str ''home''] (str ''my-app'') = exampleDest"
  by (simp add: exampleDest_def resolve_def str_def chr_def)

lemma example_manifest:
  "join exampleDest (str ''package.json'') = exampleDest @ [str ''package.json'']"
  by (simp add: exampleDest_def join_def str_def chr_def)

lemma example_copy:
  "copyTemplate exampleEnv (join (dirname exampleEnv) (str ''template'')) exampleDest []
   = (None, exampleCopied)"
  "copyTemplate busyEnv (join (dirname busyEnv) (str ''template'')) exampleDest []
   = (None, exampleCopied)"
  by (simp_all add: copyTemplate_def exampleEnv_def busyEnv_def exampleCopied_def)

lemma example_read:
  "map_of exampleCopied (join exampleDest (str ''package.json''))
   = Some (File (str ''name=template;version=1;''))"
  by (simp add: example_manifest exampleCopied_def)

lemma example_written:
  "jsonStringify exampleEnv
     (JObject (setProperty (str ''name'') (JString (str ''my-app'')) exampleProps)) 2
   = str ''name=my-app;version=1;''"
  by (simp add: exampleEnv_def exampleProps_def str_def)

lemma example_patch:
  "updatePackageJson exampleEnv exampleDest (str ''my-app'') exampleCopied
   = (None, examplePatched)"
  "updatePackageJson busyEnv exampleDest (str ''my-app'') exampleCopied
   = (None, examplePatched)"
proof -
  have f: "filter (\<lambda>e. fst e \<noteq> exampleDest @ [str ''package.json'']) exampleCopied
           = [(exampleDest, Dir)]"
    by (simp add: exampleCopied_def)
  show "updatePackageJson exampleEnv exampleDest (str ''my-app'') exampleCopied
        = (None, examplePatched)"
    using example_read
    by (simp add: updatePackageJson_object example_fields example_written writeFile_ok
        example_manifest f examplePatched_def)
  show "updatePackageJson busyEnv exampleDest (str ''my-app'') exampleCopied
        = (None, examplePatched)"
    using example_read
    by (simp add: updatePackageJson_object example_fields example_written writeFile_ok
        example_manifest f examplePatched_def)
qed

lemma example_install:
  "npmInstall exampleEnv exampleDest examplePatched = (Some 1, exampleInstalled)"
  "npmInstall busyEnv exampleDest examplePatched = (Some 1, exampleInstalled)"
  by (simp_all add: exampleEnv_def busyEnv_def exampleInstalled_def)

lemma example_installed:
  "existsSync exampleInstalled exampleDest"
  "filter (\<lambda>e. \<not> prefix exampleDest (fst e)) exampleInstalled = []"
  by (simp_all add: existsSync_def exampleInstalled_def examplePatched_def)

section \<open>Claims about the manifest and the main flow\<close>




text \<open>
  C3. When the resolved destination path exists at the existence check, the run ends
  with exit code 1, goes through none of the copy, patch, install and cleanup steps, and
  leaves the file system as it found it.
\<close>

theorem main_existing_destination:
  assumes "argv2 E = Some initialTargetDir" and "initialTargetDir \<noteq> []"
    and "askForOptions E initialTargetDir = Inr opts"
    and "packageNameToDirName (packageName opts) = Some finalDirName"
    and "existsSync files (resolve (cwd E) finalDirName)"
  shows "main E files = Inr \<lparr>exitCode = 1, steps = [], disk = files\<rparr>
         \<and> runMain E files = \<lparr>exitCode = 1, steps = [], disk = files\<rparr>"
  using assms by (simp add: main_def runMain_def)

theorem main_existing_destination_witness:
  "existsSync [(exampleDest @ [str ''README.md''], File (str ''mine''))] exampleDest
   \<and> runMain exampleEnv [(exampleDest @ [str ''README.md''], File (str ''mine''))]
       = \<lparr>exitCode = 1, steps = [],
          disk = [(exampleDest @ [str ''README.md''], File (str ''mine''))]\<rparr>"
proof -
  let ?files = "[(exampleDest @ [str ''README.md''], File (str ''mine''))]"
  have h2: "str ''My App'' \<noteq> []" by (simp add: str_def)
  have h4: "packageNameToDirName
      (packageName \<lparr>packageName = str ''my-app'', installDeps = True\<rparr>) = Some (str ''my-app'')"
    by (simp add: example_dirName)
  have e: "existsSync ?files exampleDest" by (simp add: existsSync_def)
  then have h5: "existsSync ?files (resolve (cwd exampleEnv) (str ''my-app''))"
    by (simp add: example_resolve example_fields)
  from main_existing_destination [OF example_fields(1) h2 example_options h4 h5] e
  show ?thesis by simp
qed

text \<open>
  C2 (amended). The claim says that after a failed install the destination directory is
  always deleted. The removal of line 190 can be refused; the rejection leaves the
  \<^verbatim>\<open>catch\<close> block and reaches the handler at the top level, which exits with 1 while
  the tree is still on disk: with a destination that cannot be removed, the copy and the
  patch succeed, the installer ends with status 1, the run ends with exit code 1 and the
  destination still exists.
\<close>

theorem main_refused_removal_counterexample:
  "copyTemplate busyEnv (join (dirname busyEnv) (str ''template'')) exampleDest []
     = (None, exampleCopied)
   \<and> updatePackageJson busyEnv exampleDest (str ''my-app'') exampleCopied
     = (None, examplePatched)
   \<and> npmInstall busyEnv exampleDest examplePatched = (Some 1, exampleInstalled)
   \<and> runMain busyEnv []
     = \<lparr>exitCode = 1, steps = [CopyStep, PatchStep, InstallStep, CleanupStep],
        disk = exampleInstalled\<rparr>
   \<and> existsSync exampleInstalled exampleDest"
proof -
  have h2: "str ''My App'' \<noteq> []" by (simp add: str_def)
  have h4: "packageNameToDirName
      (packageName \<lparr>packageName = str ''my-app'', installDeps = True\<rparr>) = Some (str ''my-app'')"
    by (simp add: example_dirName)
  have h5: "exampleDest = resolve (cwd busyEnv) (str ''my-app'')"
    by (simp add: example_resolve example_fields)
  have h6: "\<not> existsSync [] exampleDest" by (simp add: existsSync_def)
  have h8: "updatePackageJson busyEnv exampleDest
      (packageName \<lparr>packageName = str ''my-app'', installDeps = True\<rparr>) exampleCopied
      = (None, examplePatched)"
    by (simp add: example_patch)
  have h9: "installDeps \<lparr>packageName = str ''my-app'', installDeps = True\<rparr>" by simp
  have h10: "installDependencies busyEnv exampleDest examplePatched
      = (Some (InstallError (Some 1)), exampleInstalled)"
    by (rule install_failed [OF example_install(2)]) simp
  have "main busyEnv []
      = catchBlock busyEnv (Some exampleDest) [CopyStep, PatchStep, InstallStep] exampleInstalled"
    by (rule main_after_failed_install
        [OF example_fields(3) h2 busy_options h4 h5 h6 example_copy(2) h8 h9 h10])
  then have "runMain busyEnv []
     = \<lparr>exitCode = 1, steps = [CopyStep, PatchStep, InstallStep, CleanupStep],
        disk = exampleInstalled\<rparr>"
    by (simp add: runMain_def catchBlock_def example_installed remove_refused example_fields)
  with example_copy(2) example_patch(2) example_install(2) example_installed(1)
  show ?thesis by simp
qed

text \<open>
  C2, as amended: when the copy and the patch succeed and the installer ends with a
  status other than 0, the run ends with exit code 1, after trying to remove the
  destination directory if it exists. When that removal is not refused, nothing is left
  at or below the destination path: the file system is what the installer left, without
  the destination tree. When it is refused, the promise of \<^verbatim>\<open>main\<close> is rejected, the
  exit code is still 1 and the file system is what the refused removal left.
\<close>

theorem main_install_failure:
  assumes "argv2 E = Some initialTargetDir" and "initialTargetDir \<noteq> []"
    and "askForOptions E initialTargetDir = Inr opts"
    and "packageNameToDirName (packageName opts) = Some finalDirName"
    and "destDir = resolve (cwd E) finalDirName"
    and "\<not> existsSync files destDir"
    and "copyTemplate E (join (dirname E) (str ''template'')) destDir files = (None, files1)"
    and "updatePackageJson E destDir (packageName opts) files1 = (None, files2)"
    and "installDeps opts"
    and "npmInstall E destDir files2 = (code, files3)"
    and "code \<noteq> Some 0"
  shows "exitCode (runMain E files) = 1
         \<and> (existsSync files3 destDir \<longrightarrow>
              steps (runMain E files) = [CopyStep, PatchStep, InstallStep, CleanupStep])
         \<and> ((existsSync files3 destDir \<longrightarrow> removeFailure E destDir files3 = None) \<longrightarrow>
              main E files = Inr (runMain E files)
              \<and> disk (runMain E files) = filter (\<lambda>e. \<not> prefix destDir (fst e)) files3
              \<and> \<not> existsSync (disk (runMain E files)) destDir
              \<and> (\<forall>e \<in> set (disk (runMain E files)). \<not> prefix destDir (fst e)))
         \<and> (\<forall>left. existsSync files3 destDir \<and> removeFailure E destDir files3 = Some left
              \<longrightarrow> main E files
                    = Inl (RemoveError, [CopyStep, PatchStep, InstallStep, CleanupStep], left)
                  \<and> disk (runMain E files) = left)"
proof -
  from assms(10,11)
  have "installDependencies E destDir files2 = (Some (InstallError code), files3)"
    by (rule install_failed)
  with assms(1-9)
  have m: "main E files
           = catchBlock E (Some destDir) [CopyStep, PatchStep, InstallStep] files3"
    by (rule main_after_failed_install)
  show ?thesis
  proof (cases "existsSync files3 destDir")
    case False
    then show ?thesis
      by (simp add: runMain_def m catchBlock_def filter_absent existsSync_def list_ex_iff)
  next
    case True
    show ?thesis
    proof (cases "removeFailure E destDir files3")
      case None
      with True show ?thesis
        by (simp add: runMain_def m catchBlock_def remove_ok not_existsSync_filter)
    next
      case (Some left)
      with True show ?thesis
        by (simp add: runMain_def m catchBlock_def remove_refused)
    qed
  qed
qed

theorem main_install_failure_witness:
  "existsSync exampleInstalled exampleDest
   \<and> removeFailure exampleEnv exampleDest exampleInstalled = None
   \<and> runMain exampleEnv []
       = \<lparr>exitCode = 1, steps = [CopyStep, PatchStep, InstallStep, CleanupStep], disk = []\<rparr>"
proof -
  have h2: "str ''My App'' \<noteq> []" by (simp add: str_def)
  have h4: "packageNameToDirName
      (packageName \<lparr>packageName = str ''my-app'', installDeps = True\<rparr>) = Some (str ''my-app'')"
    by (simp add: example_dirName)
  have h5: "exampleDest = resolve (cwd exampleEnv) (str ''my-app'')"
    by (simp add: example_resolve example_fields)
  have h6: "\<not> existsSync [] exampleDest" by (simp add: existsSync_def)
  have h8: "updatePackageJson exampleEnv exampleDest
      (packageName \<lparr>packageName = str ''my-app'', installDeps = True\<rparr>) exampleCopied
      = (None, examplePatched)"
    by (simp add: example_patch)
  have h9: "installDeps \<lparr>packageName = str ''my-app'', installDeps = True\<rparr>" by simp
  have h11: "Some (1::int) \<noteq> Some 0" by simp
  have eq: "out = \<lparr>exitCode = exitCode out, steps = steps out, disk = disk out\<rparr>"
    for out :: outcome
    by simp
  from main_install_failure [OF example_fields(1) h2 example_options h4 h5 h6 example_copy(1)
      h8 h9 example_install(1) h11] example_installed example_fields(5)
  have "exitCode (runMain exampleEnv []) = 1
        \<and> steps (runMain exampleEnv []) = [CopyStep, PatchStep, InstallStep, CleanupStep]
        \<and> disk (runMain exampleEnv []) = []"
    by simp
  with eq [of "runMain exampleEnv []"] example_installed(1) example_fields(5)
  show ?thesis by simp
qed


end
